theory Spec2Isabelle
  imports Complex_Main "HOL-Library.AList" "HOL-Library.Char_ord" "HOL-Library.List_Lexorder"
begin

section \<open>Python values, dictionaries and exceptions\<close>

text \<open>
  The services exchange plain Python dictionaries (\<open>Dict[str, Any]\<close>). A value is
  \<open>None\<close>, a bool, an \<open>int\<close>, a \<open>float\<close> (read as a real: rounding,
  infinities and NaN are not modelled), a string, a list or a dictionary. A dictionary
  is an association list in insertion order whose keys are pairwise distinct.
\<close>

datatype pyval =
    PNone
  | PBool bool
  | PInt int
  | PFloat real
  | PStr string
  | PList "pyval list"
  | PDict "(string \<times> pyval) list"

type_synonym pydict = "(string \<times> pyval) list"

text \<open>Every \<open>raise\<close> of the source and every error of the interpreter is a value.\<close>

datatype exn =
    ValueError string
  | KeyError string
  | TypeError string
  | AttributeError string
  | ZeroDivisionError string
  | RuntimeError string

type_synonym 'a result = "exn + 'a"

definition exn_bind :: "exn + 'a \<Rightarrow> ('a \<Rightarrow> exn + 'b) \<Rightarrow> exn + 'b" where
  "exn_bind m f = (case m of Inl e \<Rightarrow> Inl e | Inr v \<Rightarrow> f v)"

text \<open>\<open>except Exception as e: logger.error(...); raise\<close>: the same exception goes on.\<close>

definition log_and_reraise :: "exn + 'a \<Rightarrow> exn + 'a" where
  "log_and_reraise r = (case r of Inl e \<Rightarrow> Inl e | Inr v \<Rightarrow> Inr v)"

text \<open>\<open>k in d\<close>, \<open>d.get(k, default)\<close>, \<open>d[k]\<close> and \<open>d[k] = v\<close>.\<close>

definition dict_has :: "pydict \<Rightarrow> string \<Rightarrow> bool" where
  "dict_has d k = (map_of d k \<noteq> None)"

definition dict_get :: "pydict \<Rightarrow> string \<Rightarrow> pyval \<Rightarrow> pyval" where
  "dict_get d k dflt = (case map_of d k of None \<Rightarrow> dflt | Some v \<Rightarrow> v)"

definition dict_item :: "pydict \<Rightarrow> string \<Rightarrow> exn + pyval" where
  "dict_item d k = (case map_of d k of None \<Rightarrow> Inl (KeyError k) | Some v \<Rightarrow> Inr v)"

definition dict_set :: "pydict \<Rightarrow> string \<Rightarrow> pyval \<Rightarrow> pydict" where
  "dict_set d k v = AList.update k v d"

text \<open>
  A number in arithmetic with a float: \<open>bool\<close> is a subclass of \<open>int\<close>
  (\<open>False == 0\<close>, \<open>True == 1\<close>); every other value raises \<open>TypeError\<close>.
\<close>

fun as_num :: "pyval \<Rightarrow> exn + real" where
  "as_num (PInt i) = Inr (of_int i)"
| "as_num (PFloat r) = Inr r"
| "as_num (PBool b) = Inr (if b then 1 else 0)"
| "as_num v = Inl (TypeError ''unsupported operand type(s)'')"

text \<open>Truthiness, as \<open>not x\<close> reads it.\<close>

fun truthy :: "pyval \<Rightarrow> bool" where
  "truthy PNone = False"
| "truthy (PBool b) = b"
| "truthy (PInt i) = (i \<noteq> 0)"
| "truthy (PFloat r) = (r \<noteq> 0)"
| "truthy (PStr s) = (s \<noteq> [])"
| "truthy (PList xs) = (xs \<noteq> [])"
| "truthy (PDict kvs) = (kvs \<noteq> [])"

text \<open>\<open>str(n)\<close> of an integer, as an f-string writes it.\<close>

definition digit_char :: "nat \<Rightarrow> char" where
  "digit_char n = char_of (48 + n)"

function str_nat :: "nat \<Rightarrow> string" where
  "str_nat n = (if n < 10 then [digit_char n] else str_nat (n div 10) @ [digit_char (n mod 10)])"
  by pat_completeness auto
termination
  by (relation "measure id") auto

definition str_int :: "int \<Rightarrow> string" where
  "str_int i = (if i < 0 then CHR ''-'' # str_nat (nat (- i)) else str_nat (nat i))"

text \<open>\<open>str(e)\<close> of an exception: its message; a \<open>KeyError\<close> shows the key's repr.\<close>

fun exn_str :: "exn \<Rightarrow> string" where
  "exn_str (ValueError m) = m"
| "exn_str (KeyError k) = [CHR 0x27] @ k @ [CHR 0x27]"
| "exn_str (TypeError m) = m"
| "exn_str (AttributeError m) = m"
| "exn_str (ZeroDivisionError m) = m"
| "exn_str (RuntimeError m) = m"

text \<open>
  What the program takes from its interpreter and libraries: \<open>hash\<close> of a string,
  \<open>json.dumps\<close> of a value and of a key, the text an f-string gives a number, and the
  clock's date (\<open>datetime.now()\<close>).
\<close>

record env =
  py_hash :: "string \<Rightarrow> int"
  json_value :: "pyval \<Rightarrow> string"
  json_string :: "string \<Rightarrow> string"
  format_num :: "real \<Rightarrow> string"
  now_iso :: string
  now_hour :: nat

section \<open>CarbonCaptureOptimizer (models/optimization\_model.py)\<close>

text \<open>
  \<open>self.models\<close> maps a target name to a loaded estimator. For a loaded estimator the
  inference path (the data frame, the fitted scaler, \<open>model.predict\<close> and the result
  dictionary built from it) is the library's work and is taken as a function from the
  reading to the result dictionary, or to the exception the library raises.
\<close>

type_synonym estimator = "pydict \<Rightarrow> exn + pydict"

definition optimizer_predict_efficiency :: "(string \<rightharpoonup> estimator) \<Rightarrow> pydict \<Rightarrow> exn + pydict" where
  "optimizer_predict_efficiency models sensor_data =
     log_and_reraise
       (case models ''efficiency'' of
          None \<Rightarrow> Inl (ValueError ''Efficiency model not trained. Please train the model first.'')
        | Some model \<Rightarrow> model sensor_data)"

definition optimizer_predict_maintenance :: "(string \<rightharpoonup> estimator) \<Rightarrow> pydict \<Rightarrow> exn + pydict" where
  "optimizer_predict_maintenance models sensor_data =
     log_and_reraise
       (case models ''maintenance'' of
          None \<Rightarrow> Inl (ValueError ''Maintenance model not trained. Please train the model first.'')
        | Some model \<Rightarrow> model sensor_data)"

text \<open>
  \<open>optimize_energy_usage\<close>: rule-based, no estimator. The result dictionary is built
  key by key; \<open>optimization_potential\<close> divides by \<open>current_energy\<close>.
\<close>

definition optimize_energy_usage :: "env \<Rightarrow> pydict \<Rightarrow> exn + pydict" where
  "optimize_energy_usage env operational_data =
     log_and_reraise
      (let current_energy = dict_get operational_data ''energy_consumption'' (PInt 0);
           renewable_capacity = dict_get operational_data ''renewable_capacity'' (PInt 0);
           grid_cost = dict_get operational_data ''grid_cost_per_kwh'' (PFloat 0.12);
           renewable_cost = dict_get operational_data ''renewable_cost_per_kwh'' (PFloat 0.08)
       in exn_bind (as_num current_energy) (\<lambda>ce.
          exn_bind (as_num renewable_capacity) (\<lambda>rc.
          let max_renewable_usage = min rc (ce * 0.8);
              energy_savings = max_renewable_usage * 0.9
          in exn_bind (as_num grid_cost) (\<lambda>gc.
             exn_bind (as_num renewable_cost) (\<lambda>rcost.
             let cost_savings = energy_savings * (gc - rcost);
                 current_renewable = dict_get operational_data ''current_renewable_usage'' (PInt 0)
             in exn_bind (as_num current_renewable) (\<lambda>cr.
                let target_renewable = min (cr + 20) 80;
                    recommendations =
                      [PStr (''Increase renewable energy usage to '' @ format_num env target_renewable @ ''%''),
                       PStr ''Optimize compressor scheduling during peak hours'',
                       PStr ''Implement predictive maintenance to reduce energy waste'',
                       PStr ''Adjust temperature setpoints for optimal efficiency'']
                in if ce = 0 then Inl (ZeroDivisionError ''float division by zero'')
                   else Inr [(''energy_savings'', PFloat energy_savings),
                             (''cost_savings'', PFloat cost_savings),
                             (''renewable_usage'', PFloat target_renewable),
                             (''recommendations'', PList recommendations),
                             (''current_energy_consumption'', current_energy),
                             (''optimization_potential'', PFloat ((energy_savings / ce) * 100)),
                             (''timestamp'', PStr (now_iso env))]))))))"

section \<open>PredictionService (prediction/prediction\_service.py)\<close>

text \<open>
  A prediction result is a dictionary object. The cache stores a reference to it and the
  caller receives the same reference, so a later write to the object is seen through
  both: results live in a store of objects (\<open>heap\<close>), and a reference is an index
  into it.
\<close>

type_synonym addr = nat

record cache_entry =
  data :: addr
  timestamp :: real

text \<open>
  The positional arguments \<open>loop.run_in_executor(executor, func, *args)\<close> can be
  given here: the service's thread pool, a bound method of the optimizer, or a reading.
\<close>

datatype optimizer_method = Predict_efficiency | Predict_maintenance | Optimize_energy_usage

datatype pyobj =
    ThreadPoolExecutor nat
  | BoundMethod optimizer_method
  | Reading pydict

record prediction_service =
  cache_enabled :: bool
  prediction_cache :: "string \<rightharpoonup> cache_entry"
  cache_ttl :: real
  executor :: pyobj
  optimizer_models :: "string \<rightharpoonup> estimator"
  heap :: "pydict list"

text \<open>
  \<open>__init__\<close>: a pool of four workers, an empty cache with a TTL of 300 seconds,
  and an optimizer with no estimator loaded.
\<close>

definition PredictionService_init :: "bool \<Rightarrow> prediction_service" where
  "PredictionService_init enabled =
     \<lparr>cache_enabled = enabled, prediction_cache = Map.empty, cache_ttl = 300,
      executor = ThreadPoolExecutor 4, optimizer_models = Map.empty, heap = []\<rparr>"

text \<open>\<open>self.optimizer.models[name] = model\<close>, as training and \<open>load_models\<close> do.\<close>

definition load_model :: "string \<Rightarrow> estimator \<Rightarrow> prediction_service \<Rightarrow> prediction_service" where
  "load_model name model svc = svc\<lparr>optimizer_models := (optimizer_models svc)(name \<mapsto> model)\<rparr>"

text \<open>
  The readings of \<open>time.time()\<close> one call takes, in the order of the source: at entry,
  at the freshness test, at the cache write, in \<open>_clean_cache\<close>, and at the end.
\<close>

record clock =
  t_start :: real
  t_check :: real
  t_store :: real
  t_clean :: real
  t_end :: real

definition quoted :: "string \<Rightarrow> string" where
  "quoted s = [CHR 0x27] @ s @ [CHR 0x27]"

definition call_method :: "env \<Rightarrow> (string \<rightharpoonup> estimator) \<Rightarrow> optimizer_method \<Rightarrow> pydict \<Rightarrow> exn + pydict" where
  "call_method env ms m d =
     (case m of
        Predict_efficiency \<Rightarrow> optimizer_predict_efficiency ms d
      | Predict_maintenance \<Rightarrow> optimizer_predict_maintenance ms d
      | Optimize_energy_usage \<Rightarrow> optimize_energy_usage env d)"

text \<open>
  \<open>await loop.run_in_executor(executor, func, *args)\<close> is asyncio's
  \<open>executor.submit(func, *args)\<close>, awaited: a pool runs \<open>func(*args)\<close> on a
  worker and hands back its result or its exception; an object that is no executor has
  no \<open>submit\<close>, and the attribute lookup raises \<open>AttributeError\<close>.
\<close>

fun run_in_executor :: "env \<Rightarrow> (string \<rightharpoonup> estimator) \<Rightarrow> pyobj \<Rightarrow> pyobj \<Rightarrow> pyobj list \<Rightarrow> exn + pydict" where
  "run_in_executor env ms (ThreadPoolExecutor n) (BoundMethod m) [Reading d] = call_method env ms m d"
| "run_in_executor env ms (ThreadPoolExecutor n) func args = Inl (TypeError ''object is not callable'')"
| "run_in_executor env ms (BoundMethod m) func args =
     Inl (AttributeError (quoted ''method'' @ '' object has no attribute '' @ quoted ''submit''))"
| "run_in_executor env ms (Reading d) func args =
     Inl (AttributeError (quoted ''dict'' @ '' object has no attribute '' @ quoted ''submit''))"

text \<open>
  \<open>json.dumps(d, sort_keys=True)\<close>: the items in ascending order of their keys, each
  \<open>"key": value\<close>, joined by a comma and a space.
\<close>

fun join_str :: "string \<Rightarrow> string list \<Rightarrow> string" where
  "join_str sep [] = []"
| "join_str sep [x] = x"
| "join_str sep (x # y # ys) = x @ sep @ join_str sep (y # ys)"

definition json_dumps_sorted :: "env \<Rightarrow> pydict \<Rightarrow> string" where
  "json_dumps_sorted env d =
     ''{'' @ join_str '', '' (map (\<lambda>(k, v). json_string env k @ '': '' @ json_value env v) (sort_key fst d)) @ ''}''"

text \<open>The three cache keys, each an f-string over the hash of the serialised request.\<close>

definition efficiency_cache_key :: "env \<Rightarrow> pydict \<Rightarrow> string" where
  "efficiency_cache_key env sensor_data =
     ''efficiency_'' @ str_int (py_hash env (json_dumps_sorted env sensor_data))"

definition maintenance_cache_key :: "env \<Rightarrow> pydict \<Rightarrow> string" where
  "maintenance_cache_key env sensor_data =
     ''maintenance_'' @ str_int (py_hash env (json_dumps_sorted env sensor_data))"

definition energy_cache_key :: "env \<Rightarrow> pydict \<Rightarrow> string" where
  "energy_cache_key env operational_data =
     ''energy_'' @ str_int (py_hash env (json_dumps_sorted env operational_data))"

text \<open>
  The cache test every operation starts with: the entry's reference when caching is on,
  the key is present and the entry is younger than the TTL. The test writes nothing.
\<close>

definition cache_lookup :: "prediction_service \<Rightarrow> string \<Rightarrow> real \<Rightarrow> addr option" where
  "cache_lookup svc cache_key now =
     (if cache_enabled svc then
        (case prediction_cache svc cache_key of
           None \<Rightarrow> None
         | Some cached_result \<Rightarrow>
             if now - timestamp cached_result < cache_ttl svc then Some (data cached_result) else None)
      else None)"

text \<open>\<open>_clean_cache\<close>: every entry older than the TTL is deleted.\<close>

definition clean_cache :: "prediction_service \<Rightarrow> real \<Rightarrow> prediction_service" where
  "clean_cache svc current_time =
     svc\<lparr>prediction_cache :=
       (\<lambda>key. case prediction_cache svc key of
                 None \<Rightarrow> None
               | Some v \<Rightarrow> if current_time - timestamp v > cache_ttl svc then None else Some v)\<rparr>"

text \<open>
  What the three operations do with a fresh result: the cache entry takes the reference
  and the time of the write, expired entries are swept, and then the result object
  itself gets its \<open>processing_time_ms\<close>.
\<close>

definition store_and_annotate :: "prediction_service \<Rightarrow> clock \<Rightarrow> string \<Rightarrow> pydict \<Rightarrow> addr \<times> prediction_service" where
  "store_and_annotate svc clk cache_key result_dict =
     (let result = length (heap svc);
          svc1 = svc\<lparr>heap := heap svc @ [result_dict]\<rparr>;
          svc2 = (if cache_enabled svc1
                  then svc1\<lparr>prediction_cache :=
                         (prediction_cache svc1)(cache_key \<mapsto> \<lparr>data = result, timestamp = t_store clk\<rparr>)\<rparr>
                  else svc1);
          svc3 = clean_cache svc2 (t_clean clk);
          processing_time = t_end clk - t_start clk;
          svc4 = svc3\<lparr>heap := (heap svc3)
                   [result := dict_set (heap svc3 ! result) ''processing_time_ms'' (PFloat (processing_time * 1000))]\<rparr>
      in (result, svc4))"

definition predict_efficiency :: "env \<Rightarrow> prediction_service \<Rightarrow> clock \<Rightarrow> pydict \<Rightarrow> (exn + addr) \<times> prediction_service" where
  "predict_efficiency env svc clk sensor_data =
     (let cache_key = efficiency_cache_key env sensor_data in
      case cache_lookup svc cache_key (t_check clk) of
        Some cached \<Rightarrow> (Inr cached, svc)
      | None \<Rightarrow>
          (case log_and_reraise
                  (run_in_executor env (optimizer_models svc)
                     (executor svc) (BoundMethod Predict_efficiency) [Reading sensor_data]) of
             Inl e \<Rightarrow> (Inl e, svc)
           | Inr result \<Rightarrow>
               (case store_and_annotate svc clk cache_key result of (a, svc') \<Rightarrow> (Inr a, svc'))))"

text \<open>
  \<open>predict_maintenance\<close> and \<open>optimize_energy\<close> call
  \<open>run_in_executor(self.optimizer.<method>, data)\<close>: the bound method stands where
  the executor belongs and the data where the function belongs.
\<close>

definition predict_maintenance :: "env \<Rightarrow> prediction_service \<Rightarrow> clock \<Rightarrow> pydict \<Rightarrow> (exn + addr) \<times> prediction_service" where
  "predict_maintenance env svc clk sensor_data =
     (let cache_key = maintenance_cache_key env sensor_data in
      case cache_lookup svc cache_key (t_check clk) of
        Some cached \<Rightarrow> (Inr cached, svc)
      | None \<Rightarrow>
          (case log_and_reraise
                  (run_in_executor env (optimizer_models svc)
                     (BoundMethod Predict_maintenance) (Reading sensor_data) []) of
             Inl e \<Rightarrow> (Inl e, svc)
           | Inr result \<Rightarrow>
               (case store_and_annotate svc clk cache_key result of (a, svc') \<Rightarrow> (Inr a, svc'))))"

definition optimize_energy :: "env \<Rightarrow> prediction_service \<Rightarrow> clock \<Rightarrow> pydict \<Rightarrow> (exn + addr) \<times> prediction_service" where
  "optimize_energy env svc clk operational_data =
     (let cache_key = energy_cache_key env operational_data in
      case cache_lookup svc cache_key (t_check clk) of
        Some cached \<Rightarrow> (Inr cached, svc)
      | None \<Rightarrow>
          (case log_and_reraise
                  (run_in_executor env (optimizer_models svc)
                     (BoundMethod Optimize_energy_usage) (Reading operational_data) []) of
             Inl e \<Rightarrow> (Inl e, svc)
           | Inr result \<Rightarrow>
               (case store_and_annotate svc clk cache_key result of (a, svc') \<Rightarrow> (Inr a, svc'))))"

text \<open>\<open>_extract_operational_data\<close>: six keys, each with its default.\<close>

definition extract_operational_data :: "env \<Rightarrow> pydict \<Rightarrow> pydict" where
  "extract_operational_data env sensor_data =
     [(''energy_consumption'', dict_get sensor_data ''energy_consumption'' (PInt 0)),
      (''renewable_energy_available'', dict_get sensor_data ''renewable_energy_available'' (PFloat 0.7)),
      (''renewable_usage'', dict_get sensor_data ''renewable_usage'' (PFloat 0.6)),
      (''grid_usage'', dict_get sensor_data ''grid_usage'' (PFloat 0.4)),
      (''peak_hours'', dict_get sensor_data ''peak_hours'' (PBool False)),
      (''current_hour'', dict_get sensor_data ''current_hour'' (PInt (int (now_hour env))))]"

text \<open>
  \<open>get_batch_predictions\<close>. One task per unit, built with \<open>.get\<close> and its defaults;
  \<open>asyncio.gather(..., return_exceptions=True)\<close> gives, in the order of the tasks,
  each task's result or the exception it raised. What awaiting the task at position
  \<open>i\<close> gives is \<open>await i (unit_id, sensor_data)\<close>: the result of
  \<open>_predict_unit_comprehensive\<close> or the exception it raised. The loop then writes one
  entry per result.
\<close>

definition gather_return_exceptions :: "(nat \<Rightarrow> 'a \<Rightarrow> exn + pydict) \<Rightarrow> 'a list \<Rightarrow> (exn + pydict) list" where
  "gather_return_exceptions await tasks = map (\<lambda>(i, task). await i task) (enumerate 0 tasks)"

definition batch_entry :: "env \<Rightarrow> pydict \<Rightarrow> nat \<Rightarrow> exn + pydict \<Rightarrow> pydict" where
  "batch_entry env unit_data i result =
     (let unit_id = dict_get unit_data ''unit_id'' (PStr (''unit_'' @ str_nat i)) in
      case result of
        Inl e \<Rightarrow>
          [(''unit_id'', unit_id), (''success'', PBool False),
           (''error'', PStr (exn_str e)), (''timestamp'', PStr (now_iso env))]
      | Inr r \<Rightarrow>
          dict_set (fold (\<lambda>(k, v) d. dict_set d k v) r [(''unit_id'', unit_id), (''success'', PBool True)])
            ''timestamp'' (PStr (now_iso env)))"

definition get_batch_predictions :: "env \<Rightarrow> (nat \<Rightarrow> pyval \<times> pyval \<Rightarrow> exn + pydict) \<Rightarrow> pydict list \<Rightarrow> pydict list" where
  "get_batch_predictions env await units_data =
     (let tasks = map (\<lambda>unit_data. (dict_get unit_data ''unit_id'' (PStr ''unknown''),
                                     dict_get unit_data ''sensor_data'' (PDict []))) units_data;
          results = gather_return_exceptions await tasks
      in map (\<lambda>(i, result). batch_entry env (units_data ! i) i result) (enumerate 0 results))"

section \<open>OptimizationService (optimization/optimization\_service.py)\<close>

text \<open>
  \<open>_load_optimization_templates\<close>: four strategies, each with its priority weights
  and its constraints. A constraint value is a number (\<open>True\<close> counts as 1).
\<close>

record weights =
  w_efficiency :: real
  w_energy_savings :: real
  w_maintenance_risk :: real

record template =
  priority_weights :: weights
  template_constraints :: "(string \<times> real) list"

definition load_optimization_templates :: "(string \<times> template) list" where
  "load_optimization_templates =
     [(''efficiency_focused'',
         \<lparr>priority_weights = \<lparr>w_efficiency = 0.5, w_energy_savings = 0.3, w_maintenance_risk = 0.2\<rparr>,
          template_constraints = [(''max_energy_increase'', 0.05), (''min_efficiency_gain'', 0.02)]\<rparr>),
      (''energy_efficient'',
         \<lparr>priority_weights = \<lparr>w_efficiency = 0.2, w_energy_savings = 0.6, w_maintenance_risk = 0.2\<rparr>,
          template_constraints = [(''max_efficiency_decrease'', 0.01), (''min_energy_savings'', 50)]\<rparr>),
      (''maintenance_prioritized'',
         \<lparr>priority_weights = \<lparr>w_efficiency = 0.2, w_energy_savings = 0.2, w_maintenance_risk = 0.6\<rparr>,
          template_constraints = [(''max_maintenance_risk'', 0.3), (''maintenance_window_days'', 30)]\<rparr>),
      (''balanced'',
         \<lparr>priority_weights = \<lparr>w_efficiency = 0.33, w_energy_savings = 0.33, w_maintenance_risk = 0.34\<rparr>,
          template_constraints = [(''balanced_tradeoff'', 1)]\<rparr>)]"

text \<open>\<open>repr\<close> of a list of plain strings, as an f-string shows it.\<close>

definition list_repr :: "string list \<Rightarrow> string" where
  "list_repr xs = ''['' @ join_str '', '' (map quoted xs) @ '']''"

fun is_str :: "pyval \<Rightarrow> bool" where
  "is_str (PStr s) = True"
| "is_str v = False"

fun is_dict :: "pyval \<Rightarrow> bool" where
  "is_dict (PDict d) = True"
| "is_dict v = False"

fun dict_of :: "pyval \<Rightarrow> pydict" where
  "dict_of (PDict d) = d"
| "dict_of v = []"

definition required_sensors :: "string list" where
  "required_sensors = [''temperature'', ''pressure'', ''flow_rate'', ''energy_consumption'']"

definition validate_optimization_inputs :: "pyval \<Rightarrow> pyval \<Rightarrow> string \<Rightarrow> exn + unit" where
  "validate_optimization_inputs unit_id sensor_data strategy =
     (if \<not> truthy unit_id \<or> \<not> is_str unit_id then
        Inl (ValueError ''Valid unit_id is required'')
      else if \<not> truthy sensor_data \<or> \<not> is_dict sensor_data then
        Inl (ValueError ''Valid sensor_data dictionary is required'')
      else if map_of load_optimization_templates strategy = None then
        Inl (ValueError (''Unknown optimization strategy: '' @ strategy @ ''. Available: ''
                          @ list_repr (map fst load_optimization_templates)))
      else
        (let missing_sensors = filter (\<lambda>s. \<not> dict_has (dict_of sensor_data) s) required_sensors in
         if missing_sensors \<noteq> [] then
           Inl (ValueError (''Missing required sensor data: '' @ list_repr missing_sensors))
         else Inr ()))"

text \<open>
  \<open>optimize_unit_comprehensive\<close>: the validation is the first statement of the
  \<open>try\<close> block. Everything after it (the three predictions, the plan, the timeline and
  the risk assessment) is \<open>body\<close>, which runs on the service's state; the handler logs
  and raises again.
\<close>

definition optimize_unit_comprehensive ::
    "(prediction_service \<Rightarrow> (exn + pydict) \<times> prediction_service) \<Rightarrow> prediction_service
      \<Rightarrow> pyval \<Rightarrow> pyval \<Rightarrow> string \<Rightarrow> (exn + pydict) \<times> prediction_service" where
  "optimize_unit_comprehensive body svc unit_id sensor_data optimization_strategy =
     (case validate_optimization_inputs unit_id sensor_data optimization_strategy of
        Inl e \<Rightarrow> (Inl e, svc)
      | Inr u \<Rightarrow> (case body svc of (r, svc') \<Rightarrow> (log_and_reraise r, svc')))"

text \<open>
  A recommendation, as the three generators build it; \<open>priority_rank\<close> and
  \<open>priority_score\<close> are absent until the list is prioritized.
\<close>

record recommendation =
  rec_id :: string
  category :: string
  title :: string
  description :: string
  impact :: "(string \<times> real) list"
  difficulty :: string
  time_to_implement :: real
  cost :: real
  risk_level :: string
  priority_rank :: "nat option"
  priority_score :: "real option"

text \<open>\<open>rec['impact'].get(key, 0)\<close>.\<close>

definition impact_get :: "recommendation \<Rightarrow> string \<Rightarrow> real" where
  "impact_get r key = (case map_of (impact r) key of None \<Rightarrow> 0 | Some v \<Rightarrow> v)"

text \<open>
  The impacts, weights, bounds and scores are Python floats, read as the real numbers
  they denote; comparisons, \<open>abs\<close> and negation of floats are exact. The four
  arithmetic operations round: each is taken as given (\<open>float_arith\<close>, the rounding of
  its operands and of its result included), and every property of the filter and of
  the scores below holds for whatever the operations return. \<open>exact_arith\<close> is the
  arithmetic without rounding.
\<close>

record float_arith =
  fadd :: "real \<Rightarrow> real \<Rightarrow> real"
  fsub :: "real \<Rightarrow> real \<Rightarrow> real"
  fmul :: "real \<Rightarrow> real \<Rightarrow> real"
  fdiv :: "real \<Rightarrow> real \<Rightarrow> real"

definition exact_arith :: float_arith where
  "exact_arith = \<lparr>fadd = (\<lambda>a b. a + b), fsub = (\<lambda>a b. a - b), fmul = (\<lambda>a b. a * b), fdiv = (\<lambda>a b. a / b)\<rparr>"




text \<open>\<open>_prioritize_recommendations\<close> and its inner \<open>calculate_priority_score\<close>.\<close>

definition difficulty_penalty :: "(string \<times> real) list" where
  "difficulty_penalty = [(''low'', 0), (''medium'', 0.1), (''high'', 0.2)]"

definition risk_penalty :: "(string \<times> real) list" where
  "risk_penalty = [(''low'', 0), (''medium'', 0.15), (''high'', 0.3)]"

definition penalty_get :: "(string \<times> real) list \<Rightarrow> string \<Rightarrow> real" where
  "penalty_get table level = (case map_of table level of None \<Rightarrow> 0 | Some p \<Rightarrow> p)"

text \<open>
  The score is computed with the float operations (\<open>float_arith\<close>), applied in the
  order of the source.
\<close>

definition calculate_priority_score :: "float_arith \<Rightarrow> weights \<Rightarrow> recommendation \<Rightarrow> real" where
  "calculate_priority_score fa w r =
     (let score = 0;
          efficiency_gain = fmul fa (impact_get r ''efficiency_gain'') (w_efficiency w);
          energy_savings = fdiv fa (fmul fa (impact_get r ''energy_savings'') (w_energy_savings w)) 10;
          risk_reduction =
            fmul fa (fmul fa (impact_get r ''maintenance_risk_reduction'') (w_maintenance_risk w)) 100;
          score1 = fadd fa score (fadd fa (fadd fa efficiency_gain energy_savings) risk_reduction);
          score2 = fsub fa score1 (fmul fa score1 (penalty_get difficulty_penalty (difficulty r)));
          score3 = fsub fa score2 (fmul fa score2 (penalty_get risk_penalty (risk_level r)))
      in score3)"

text \<open>
  \<open>sorted(xs, key=f, reverse=True)\<close>: descending by key, and elements with equal keys
  stay in their original order (Python's sort is stable, also when reversed).
\<close>

definition sorted_reverse :: "('a \<Rightarrow> real) \<Rightarrow> 'a list \<Rightarrow> 'a list" where
  "sorted_reverse key xs = sort_key (\<lambda>x. - key x) xs"

definition add_priority :: "float_arith \<Rightarrow> weights \<Rightarrow> nat \<times> recommendation \<Rightarrow> recommendation" where
  "add_priority fa w ir =
     (case ir of (i, r) \<Rightarrow>
        (let r1 = r\<lparr>priority_rank := Some (i + 1)\<rparr>
         in r1\<lparr>priority_score := Some (calculate_priority_score fa w r1)\<rparr>))"

definition prioritize_recommendations ::
    "float_arith \<Rightarrow> recommendation list \<Rightarrow> weights \<Rightarrow> recommendation list" where
  "prioritize_recommendations fa recommendations w =
     (let prioritized = sorted_reverse (calculate_priority_score fa w) recommendations
      in map (add_priority fa w) (enumerate 0 prioritized))"


text \<open>
  \<open>optimize_network\<close>. The task list is built first, with \<open>unit_data['unit_id']\<close>
  and \<open>unit_data['sensor_data']\<close> read by subscript; then the tasks are gathered with
  \<open>return_exceptions=True\<close> and the results split into successes and failures.
  \<open>await i task\<close> is what awaiting the task at position \<open>i\<close> gives, and
  \<open>aggregate\<close> is \<open>_aggregate_network_results\<close>.
\<close>

fun network_tasks :: "pydict list \<Rightarrow> string \<Rightarrow> exn + (pyval \<times> pyval \<times> string) list" where
  "network_tasks [] strategy = Inr []"
| "network_tasks (unit_data # rest) strategy =
     exn_bind (dict_item unit_data ''unit_id'') (\<lambda>unit_id.
     exn_bind (dict_item unit_data ''sensor_data'') (\<lambda>sensor_data.
     exn_bind (network_tasks rest strategy) (\<lambda>tasks.
     Inr ((unit_id, sensor_data, strategy) # tasks))))"

fun split_results ::
    "((pyval \<times> pyval \<times> string) \<times> (exn + pydict)) list \<Rightarrow> pydict list \<times> pydict list" where
  "split_results [] = ([], [])"
| "split_results ((task, result) # rest) =
     (case split_results rest of (successful, failed) \<Rightarrow>
        (case result of
           Inl e \<Rightarrow> (successful, [(''unit_id'', fst task), (''error'', PStr (exn_str e))] # failed)
         | Inr r \<Rightarrow> (r # successful, failed)))"

definition optimize_network ::
    "env \<Rightarrow> clock \<Rightarrow> (nat \<Rightarrow> pyval \<times> pyval \<times> string \<Rightarrow> exn + pydict) \<Rightarrow> (pydict list \<Rightarrow> exn + pydict)
      \<Rightarrow> pydict list \<Rightarrow> string \<Rightarrow> exn + pydict" where
  "optimize_network env clk await aggregate network_data optimization_strategy =
     exn_bind (network_tasks network_data optimization_strategy) (\<lambda>tasks.
       let results = gather_return_exceptions await tasks in
       case split_results (zip tasks results) of (successful_optimizations, failed_optimizations) \<Rightarrow>
         exn_bind (aggregate successful_optimizations) (\<lambda>network_summary.
           Inr [(''network_optimization'',
                   PDict [(''total_units'', PInt (int (length network_data))),
                          (''successful_optimizations'', PInt (int (length successful_optimizations))),
                          (''failed_optimizations'', PInt (int (length failed_optimizations))),
                          (''optimization_strategy'', PStr optimization_strategy),
                          (''processing_time_ms'', PFloat ((t_end clk - t_start clk) * 1000))]),
                (''results'', PList (map PDict successful_optimizations)),
                (''failures'', PList (map PDict failed_optimizations)),
                (''network_summary'', PDict network_summary),
                (''timestamp'', PStr (now_iso env))]))"

section \<open>Concrete inputs and the properties' vocabulary\<close>

text \<open>An interpreter, a reading and an estimator to run the definitions on.\<close>

definition example_env :: env where
  "example_env =
     \<lparr>py_hash = (\<lambda>s. int (length s)),
      json_value = (\<lambda>v. case v of PInt i \<Rightarrow> ''int'' | PFloat r \<Rightarrow> ''float'' | _ \<Rightarrow> ''other''),
      json_string = (\<lambda>k. [CHR 0x22] @ k @ [CHR 0x22]),
      format_num = (\<lambda>r. ''20''),
      now_iso = ''2024-01-01T12:00:00'',
      now_hour = 12\<rparr>"

definition example_reading :: pydict where
  "example_reading =
     [(''temperature'', PFloat 75.5), (''pressure'', PFloat 45.2),
      (''flow_rate'', PFloat 1200.5), (''energy_consumption'', PFloat 850.2)]"

definition example_estimator :: estimator where
  "example_estimator sensor_data = Inr [(''predicted_efficiency'', PFloat 82.5)]"

definition example_clock :: "real \<Rightarrow> real \<Rightarrow> clock" where
  "example_clock t0 t1 = \<lparr>t_start = t0, t_check = t0, t_store = t1, t_clean = t1, t_end = t1\<rparr>"

definition failing_estimator :: estimator where
  "failing_estimator sensor_data = Inl (RuntimeError ''inference failed'')"

text \<open>A fresh service with an efficiency estimator loaded, and two calls in a row.\<close>

definition example_service :: prediction_service where
  "example_service = load_model ''efficiency'' example_estimator (PredictionService_init True)"

definition example_first_call :: "(exn + addr) \<times> prediction_service" where
  "example_first_call = predict_efficiency example_env example_service (example_clock 0 2) example_reading"

definition example_second_call :: "(exn + addr) \<times> prediction_service" where
  "example_second_call =
     predict_efficiency example_env (snd example_first_call) (example_clock 10 10.001) example_reading"

text \<open>A service that cached a result for the example reading at time 0.\<close>

definition example_cached_service :: prediction_service where
  "example_cached_service =
     example_service
       \<lparr>prediction_cache := [efficiency_cache_key example_env example_reading \<mapsto> \<lparr>data = 0, timestamp = 0\<rparr>],
        heap := [[(''predicted_efficiency'', PFloat 80)]]\<rparr>"

text \<open>
  Candidates as the generators build them: \<open>temp_optimization\<close> for a temperature of
  75.5; \<open>renewable_shift\<close> for an energy result with \<open>energy_savings\<close> 270 and
  \<open>renewable_usage\<close> 20; and \<open>peak_shaving\<close>.
\<close>

definition temp_optimization :: recommendation where
  "temp_optimization =
     \<lparr>rec_id = ''temp_optimization'', category = ''efficiency'', title = ''Temperature Optimization'',
      description = ''Reduce operating temperature from 75.5'' @ [CHR 0xC2, CHR 0xB0] @ ''C to 25''
                     @ [CHR 0xC2, CHR 0xB0] @ ''C'',
      impact = [(''efficiency_gain'', 2.5), (''energy_savings'', 35), (''co2_reduction'', 12)],
      difficulty = ''medium'', time_to_implement = 2, cost = 0, risk_level = ''low'',
      priority_rank = None, priority_score = None\<rparr>"



definition balanced_weights :: weights where
  "balanced_weights = \<lparr>w_efficiency = 0.33, w_energy_savings = 0.33, w_maintenance_risk = 0.34\<rparr>"



text \<open>
  A float arithmetic that is accurate: on operands of magnitude up to 1000 (and, for a
  division, a divisor of magnitude at least 1) every result is within one billionth of
  the exact one. Double precision, the rounding of the literals included, is well
  within this bound.
\<close>

definition accurate :: "float_arith \<Rightarrow> bool" where
  "accurate fa \<longleftrightarrow>
     (\<forall>a b. \<bar>a\<bar> \<le> 1000 \<and> \<bar>b\<bar> \<le> 1000 \<longrightarrow>
        \<bar>fadd fa a b - (a + b)\<bar> \<le> 1 / 10 ^ 9
        \<and> \<bar>fsub fa a b - (a - b)\<bar> \<le> 1 / 10 ^ 9
        \<and> \<bar>fmul fa a b - a * b\<bar> \<le> 1 / 10 ^ 9
        \<and> (1 \<le> \<bar>b\<bar> \<longrightarrow> \<bar>fdiv fa a b - a / b\<bar> \<le> 1 / 10 ^ 9))"

text \<open>
  The priority score as the specification words it: the weighted sum of the impacts,
  scaled by the two penalties, with no further factor.
\<close>

definition claimed_priority_score :: "weights \<Rightarrow> recommendation \<Rightarrow> real" where
  "claimed_priority_score w r =
     (impact_get r ''efficiency_gain'' * w_efficiency w
      + impact_get r ''energy_savings'' * w_energy_savings w
      + impact_get r ''maintenance_risk_reduction'' * w_maintenance_risk w)
     * (1 - penalty_get difficulty_penalty (difficulty r))
     * (1 - penalty_get risk_penalty (risk_level r))"

text \<open>A recommendation without the two fields the prioritization adds.\<close>

definition unranked :: "recommendation \<Rightarrow> recommendation" where
  "unranked r = r\<lparr>priority_rank := None, priority_score := None\<rparr>"

text \<open>A field of a dictionary that is absent or a number, and one that is absent or zero.\<close>

definition absent_or_numeric :: "pydict \<Rightarrow> string \<Rightarrow> bool" where
  "absent_or_numeric d k = (case map_of d k of None \<Rightarrow> True | Some v \<Rightarrow> \<not> isl (as_num v))"

definition absent_or_zero :: "pydict \<Rightarrow> string \<Rightarrow> bool" where
  "absent_or_zero d k = (case map_of d k of None \<Rightarrow> True | Some v \<Rightarrow> as_num v = Inr 0)"

section \<open>Basic facts\<close>

lemma exn_bind_simps:
  "exn_bind (Inl e) f = Inl e"
  "exn_bind (Inr v) f = f v"
  by (simp_all add: exn_bind_def)

lemma log_and_reraise_id: "log_and_reraise r = r"
  by (cases r) (simp_all add: log_and_reraise_def)

lemma as_num_cases: "\<not> isl (as_num v) \<Longrightarrow> \<exists>r. as_num v = Inr r"
  by (cases v) auto

lemma absent_or_numeric_get:
  "absent_or_numeric d k \<Longrightarrow> \<not> isl (as_num dflt) \<Longrightarrow> \<exists>r. as_num (dict_get d k dflt) = Inr r"
  by (auto simp: absent_or_numeric_def dict_get_def dest: as_num_cases split: option.splits)

lemma absent_or_zero_get:
  "absent_or_zero d k \<Longrightarrow> as_num (dict_get d k (PInt 0)) = Inr 0"
  by (auto simp: absent_or_zero_def dict_get_def split: option.splits)

section \<open>Energy optimization divides by the energy consumption\<close>

lemma energy_zero:
  assumes "as_num (dict_get od ''energy_consumption'' (PInt 0)) = Inr 0"
    and "as_num (dict_get od ''renewable_capacity'' (PInt 0)) = Inr rc"
    and "as_num (dict_get od ''grid_cost_per_kwh'' (PFloat 0.12)) = Inr gc"
    and "as_num (dict_get od ''renewable_cost_per_kwh'' (PFloat 0.08)) = Inr rcost"
    and "as_num (dict_get od ''current_renewable_usage'' (PInt 0)) = Inr cr"
  shows "optimize_energy_usage env od = Inl (ZeroDivisionError ''float division by zero'')"
  using assms by (simp add: optimize_energy_usage_def log_and_reraise_def exn_bind_simps Let_def)

lemma energy_nonzero:
  assumes "as_num (dict_get od ''energy_consumption'' (PInt 0)) = Inr ce" "ce \<noteq> 0"
    and "as_num (dict_get od ''renewable_capacity'' (PInt 0)) = Inr rc"
    and "as_num (dict_get od ''grid_cost_per_kwh'' (PFloat 0.12)) = Inr gc"
    and "as_num (dict_get od ''renewable_cost_per_kwh'' (PFloat 0.08)) = Inr rcost"
    and "as_num (dict_get od ''current_renewable_usage'' (PInt 0)) = Inr cr"
  shows "\<not> isl (optimize_energy_usage env od)"
  using assms by (simp add: optimize_energy_usage_def log_and_reraise_def exn_bind_simps Let_def)

lemma extract_fields:
  "dict_get (extract_operational_data env sd) ''energy_consumption'' dflt = dict_get sd ''energy_consumption'' (PInt 0)"
  "dict_get (extract_operational_data env sd) ''renewable_capacity'' dflt = dflt"
  "dict_get (extract_operational_data env sd) ''grid_cost_per_kwh'' dflt = dflt"
  "dict_get (extract_operational_data env sd) ''renewable_cost_per_kwh'' dflt = dflt"
  "dict_get (extract_operational_data env sd) ''current_renewable_usage'' dflt = dflt"
  by (simp_all add: extract_operational_data_def dict_get_def)

text \<open>
  C10. Whenever \<open>energy_consumption\<close> is absent from the operational data or is zero
  (and the four other fields the function reads are absent or numbers, so that no
  \<open>TypeError\<close> comes first), \<open>optimize_energy_usage\<close> raises \<open>ZeroDivisionError\<close>
  while it computes \<open>optimization_potential\<close>, and the handler raises it again. The
  same holds for the dictionary \<open>_extract_operational_data\<close> builds from any reading
  whose \<open>energy_consumption\<close> is absent or zero: there the default 0 is substituted
  and none of the other four fields is ever present. With a consumption other than zero
  the function returns a result: a consumption that is not zero is its precondition.
\<close>

theorem optimize_energy_usage_division_by_zero:
  "(absent_or_zero od ''energy_consumption'' \<and>
    (\<forall>k \<in> set [''renewable_capacity'', ''grid_cost_per_kwh'', ''renewable_cost_per_kwh'', ''current_renewable_usage''].
        absent_or_numeric od k)
      \<longrightarrow> optimize_energy_usage env od = Inl (ZeroDivisionError ''float division by zero''))
   \<and> (absent_or_zero sd ''energy_consumption''
      \<longrightarrow> optimize_energy_usage env (extract_operational_data env sd)
            = Inl (ZeroDivisionError ''float division by zero''))
   \<and> (as_num (dict_get od' ''energy_consumption'' (PInt 0)) = Inr ce \<and> ce \<noteq> 0 \<and>
    (\<forall>k \<in> set [''renewable_capacity'', ''grid_cost_per_kwh'', ''renewable_cost_per_kwh'', ''current_renewable_usage''].
        absent_or_numeric od' k)
      \<longrightarrow> \<not> isl (optimize_energy_usage env od'))"
proof (intro conjI impI)
  assume a: "absent_or_zero od ''energy_consumption'' \<and>
    (\<forall>k \<in> set [''renewable_capacity'', ''grid_cost_per_kwh'', ''renewable_cost_per_kwh'', ''current_renewable_usage''].
        absent_or_numeric od k)"
  then obtain rc gc rcost cr where
    "as_num (dict_get od ''renewable_capacity'' (PInt 0)) = Inr rc"
    "as_num (dict_get od ''grid_cost_per_kwh'' (PFloat 0.12)) = Inr gc"
    "as_num (dict_get od ''renewable_cost_per_kwh'' (PFloat 0.08)) = Inr rcost"
    "as_num (dict_get od ''current_renewable_usage'' (PInt 0)) = Inr cr"
    using absent_or_numeric_get[of od _ "PInt 0"] absent_or_numeric_get[of od _ "PFloat 0.12"]
      absent_or_numeric_get[of od _ "PFloat 0.08"]
    by (metis list.set_intros(1,2) as_num.simps(1,2) sum.disc(2))
  with a show "optimize_energy_usage env od = Inl (ZeroDivisionError ''float division by zero'')"
    by (intro energy_zero) (auto dest: absent_or_zero_get)
next
  assume a: "absent_or_zero sd ''energy_consumption''"
  show "optimize_energy_usage env (extract_operational_data env sd)
            = Inl (ZeroDivisionError ''float division by zero'')"
    by (rule energy_zero[where rc=0 and gc="0.12" and rcost="0.08" and cr=0])
       (simp_all add: extract_fields absent_or_zero_get[OF a])
next
  assume a: "as_num (dict_get od' ''energy_consumption'' (PInt 0)) = Inr ce \<and> ce \<noteq> 0 \<and>
    (\<forall>k \<in> set [''renewable_capacity'', ''grid_cost_per_kwh'', ''renewable_cost_per_kwh'', ''current_renewable_usage''].
        absent_or_numeric od' k)"
  then obtain rc gc rcost cr where
    "as_num (dict_get od' ''renewable_capacity'' (PInt 0)) = Inr rc"
    "as_num (dict_get od' ''grid_cost_per_kwh'' (PFloat 0.12)) = Inr gc"
    "as_num (dict_get od' ''renewable_cost_per_kwh'' (PFloat 0.08)) = Inr rcost"
    "as_num (dict_get od' ''current_renewable_usage'' (PInt 0)) = Inr cr"
    using absent_or_numeric_get[of od' _ "PInt 0"] absent_or_numeric_get[of od' _ "PFloat 0.12"]
      absent_or_numeric_get[of od' _ "PFloat 0.08"]
    by (metis list.set_intros(1,2) as_num.simps(1,2) sum.disc(2))
  with a show "\<not> isl (optimize_energy_usage env od')"
    by (intro energy_nonzero[where ce=ce]) auto
qed

theorem optimize_energy_usage_division_by_zero_witness:
  "optimize_energy_usage example_env [(''renewable_capacity'', PInt 300)]
     = Inl (ZeroDivisionError ''float division by zero'')
   \<and> optimize_energy_usage example_env
        (extract_operational_data example_env [(''energy_consumption'', PInt 0), (''temperature'', PFloat 75.5)])
     = Inl (ZeroDivisionError ''float division by zero'')
   \<and> \<not> isl (optimize_energy_usage example_env
               [(''energy_consumption'', PFloat 850.2), (''renewable_capacity'', PInt 300)])"
  using optimize_energy_usage_division_by_zero
          [of "[(''renewable_capacity'', PInt 300)]" example_env
              "[(''energy_consumption'', PInt 0), (''temperature'', PFloat 75.5)]"
              "[(''energy_consumption'', PFloat 850.2), (''renewable_capacity'', PInt 300)]" "850.2"]
  by (simp add: absent_or_zero_def absent_or_numeric_def dict_get_def)

section \<open>An estimator that is not loaded\<close>

text \<open>
  C6. With no estimator loaded for the target, \<open>predict_efficiency\<close> and
  \<open>predict_maintenance\<close> of the optimizer raise the error of their first statement
  (\<open>ValueError\<close>, "... model not trained"), which the handler raises again: no result
  dictionary is returned in its place. Through the service, \<open>predict_efficiency\<close> on
  a cache miss hands the same error to its caller and leaves the service as it was.
\<close>

theorem model_not_ready_propagates:
  "(models ''efficiency'' = None \<longrightarrow>
      optimizer_predict_efficiency models sensor_data
        = Inl (ValueError ''Efficiency model not trained. Please train the model first.''))
   \<and> (models ''maintenance'' = None \<longrightarrow>
      optimizer_predict_maintenance models sensor_data
        = Inl (ValueError ''Maintenance model not trained. Please train the model first.''))
   \<and> (optimizer_models svc ''efficiency'' = None
        \<and> executor svc = ThreadPoolExecutor n
        \<and> cache_lookup svc (efficiency_cache_key env sensor_data) (t_check clk) = None \<longrightarrow>
      predict_efficiency env svc clk sensor_data
        = (Inl (ValueError ''Efficiency model not trained. Please train the model first.''), svc))"
  by (simp add: optimizer_predict_efficiency_def optimizer_predict_maintenance_def
        predict_efficiency_def call_method_def log_and_reraise_id Let_def)

theorem model_not_ready_propagates_witness:
  "optimizer_predict_efficiency Map.empty example_reading
        = Inl (ValueError ''Efficiency model not trained. Please train the model first.'')
   \<and> optimizer_predict_maintenance Map.empty example_reading
        = Inl (ValueError ''Maintenance model not trained. Please train the model first.'')
   \<and> predict_efficiency example_env (PredictionService_init True) (example_clock 0 2) example_reading
        = (Inl (ValueError ''Efficiency model not trained. Please train the model first.''),
           PredictionService_init True)"
  using model_not_ready_propagates
          [of Map.empty example_reading "PredictionService_init True" 4 example_env "example_clock 0 2"]
  by (simp add: PredictionService_init_def cache_lookup_def Let_def)

section \<open>Dispatch onto the worker pool\<close>

text \<open>
  C1. On a service whose cache is empty, \<open>predict_maintenance\<close> and
  \<open>optimize_energy\<close> never reach the optimizer: \<open>run_in_executor\<close> is given the
  bound method where the executor belongs, the lookup of \<open>submit\<close> on it raises
  \<open>AttributeError\<close>, the handler raises it again, and nothing is cached. This holds
  for every reading and whichever estimators are loaded.
\<close>

theorem maintenance_and_energy_never_reach_the_pool:
  "predict_maintenance env (svc\<lparr>prediction_cache := Map.empty\<rparr>) clk sensor_data
     = (Inl (AttributeError (quoted ''method'' @ '' object has no attribute '' @ quoted ''submit'')),
        svc\<lparr>prediction_cache := Map.empty\<rparr>)
   \<and> optimize_energy env (svc\<lparr>prediction_cache := Map.empty\<rparr>) clk operational_data
     = (Inl (AttributeError (quoted ''method'' @ '' object has no attribute '' @ quoted ''submit'')),
        svc\<lparr>prediction_cache := Map.empty\<rparr>)"
  by (simp add: predict_maintenance_def optimize_energy_def cache_lookup_def log_and_reraise_id Let_def)

section \<open>Failures of single units in a batch and in a network optimization\<close>

text \<open>
  \<open>get_batch_predictions\<close> cannot raise: it returns one entry per unit, at the
  unit's position, and the entry of a unit whose task raised is the failure record with
  the unit's id and the exception's message.
\<close>

lemma gather_return_exceptions_length:
  "length (gather_return_exceptions await tasks) = length tasks"
  by (simp add: gather_return_exceptions_def)

lemma gather_return_exceptions_nth:
  "i < length tasks \<Longrightarrow> gather_return_exceptions await tasks ! i = await i (tasks ! i)"
  by (simp add: gather_return_exceptions_def nth_enumerate_eq)

lemma get_batch_predictions_length:
  "length (get_batch_predictions env await units_data) = length units_data"
  by (simp add: get_batch_predictions_def Let_def gather_return_exceptions_length)

lemma get_batch_predictions_nth:
  "i < length units_data \<Longrightarrow>
     get_batch_predictions env await units_data ! i
       = batch_entry env (units_data ! i) i
           (await i (dict_get (units_data ! i) ''unit_id'' (PStr ''unknown''),
                     dict_get (units_data ! i) ''sensor_data'' (PDict [])))"
  by (simp add: get_batch_predictions_def Let_def gather_return_exceptions_length
        gather_return_exceptions_nth nth_enumerate_eq)

lemma batch_entry_failure:
  "batch_entry env unit_data i (Inl e)
     = [(''unit_id'', dict_get unit_data ''unit_id'' (PStr (''unit_'' @ str_nat i))),
        (''success'', PBool False), (''error'', PStr (exn_str e)), (''timestamp'', PStr (now_iso env))]"
  by (simp add: batch_entry_def)

text \<open>
  \<open>optimize_network\<close> builds its tasks when every unit has both keys, and then its
  results are the successes and the failure records, each in the order of the units.
\<close>

lemma network_tasks_complete:
  "(\<forall>u \<in> set network_data. dict_has u ''unit_id'' \<and> dict_has u ''sensor_data'') \<Longrightarrow>
     network_tasks network_data strategy
       = Inr (map (\<lambda>u. (dict_get u ''unit_id'' PNone, dict_get u ''sensor_data'' PNone, strategy)) network_data)"
  by (induction network_data)
     (auto simp: dict_has_def dict_item_def dict_get_def exn_bind_simps)

lemma split_results_order:
  "split_results trs
     = (List.map_filter (\<lambda>tr. case snd tr of Inr r \<Rightarrow> Some r | Inl e \<Rightarrow> None) trs,
        List.map_filter (\<lambda>tr. case snd tr of
                            Inl e \<Rightarrow> Some [(''unit_id'', fst (fst tr)), (''error'', PStr (exn_str e))]
                          | Inr r \<Rightarrow> None) trs)"
  by (induction trs) (auto split: sum.splits)

text \<open>
  C2. A network of two units, the second without \<open>sensor_data\<close>:
  \<open>optimize_network\<close> raises \<open>KeyError\<close> while it builds the task list, whatever the
  units' optimizations would have returned; no unit is processed and no result is
  assembled.
\<close>

theorem optimize_network_key_error_escapes:
  "optimize_network env clk await aggregate
     [[(''unit_id'', PStr ''CC-001''), (''sensor_data'', PDict example_reading)],
      [(''unit_id'', PStr ''CC-002'')]] strategy
   = Inl (KeyError ''sensor_data'')"
  by (simp add: optimize_network_def dict_item_def exn_bind_simps)

section \<open>Validation of the inputs of a unit optimization\<close>

lemma validate_ok_iff:
  "validate_optimization_inputs (PStr u) (PDict d) st = Inr () \<longleftrightarrow>
     u \<noteq> [] \<and> st \<in> {''efficiency_focused'', ''energy_efficient'', ''maintenance_prioritized'', ''balanced''}
     \<and> (\<forall>f \<in> set required_sensors. dict_has d f)"
  by (auto simp: validate_optimization_inputs_def load_optimization_templates_def Let_def
        filter_empty_conv dict_has_def required_sensors_def)

lemma validate_error:
  "validate_optimization_inputs uid sd st \<noteq> Inr () \<Longrightarrow>
     \<exists>msg. validate_optimization_inputs uid sd st = Inl (ValueError msg)"
  by (auto simp: validate_optimization_inputs_def Let_def split: if_splits)

text \<open>
  C9. For a unit id that is a string and a reading that is a dictionary, the validation
  passes exactly when the unit id is not empty, the strategy is one of the four known
  ones and the four required sensor fields are all present. When it does not pass,
  it raises a \<open>ValueError\<close> with a message, and \<open>optimize_unit_comprehensive\<close>
  raises that same error with the service untouched, whatever the rest of its body
  (the predictions included) would do. When it passes, the call is its body.
\<close>

theorem validation_fails_fast:
  "(validate_optimization_inputs (PStr u) (PDict d) st = Inr () \<longleftrightarrow>
      u \<noteq> [] \<and> st \<in> {''efficiency_focused'', ''energy_efficient'', ''maintenance_prioritized'', ''balanced''}
      \<and> (\<forall>f \<in> set [''temperature'', ''pressure'', ''flow_rate'', ''energy_consumption'']. dict_has d f))
   \<and> (validate_optimization_inputs (PStr u) (PDict d) st \<noteq> Inr () \<longrightarrow>
        (\<exists>msg. validate_optimization_inputs (PStr u) (PDict d) st = Inl (ValueError msg)
             \<and> optimize_unit_comprehensive body svc (PStr u) (PDict d) st = (Inl (ValueError msg), svc)))
   \<and> (validate_optimization_inputs (PStr u) (PDict d) st = Inr () \<longrightarrow>
        optimize_unit_comprehensive body svc (PStr u) (PDict d) st = body svc)"
proof (intro conjI impI)
  show "validate_optimization_inputs (PStr u) (PDict d) st = Inr () \<longleftrightarrow>
      u \<noteq> [] \<and> st \<in> {''efficiency_focused'', ''energy_efficient'', ''maintenance_prioritized'', ''balanced''}
      \<and> (\<forall>f \<in> set [''temperature'', ''pressure'', ''flow_rate'', ''energy_consumption'']. dict_has d f)"
    using validate_ok_iff[of u d st] by (simp add: required_sensors_def)
next
  assume "validate_optimization_inputs (PStr u) (PDict d) st \<noteq> Inr ()"
  then obtain msg where m: "validate_optimization_inputs (PStr u) (PDict d) st = Inl (ValueError msg)"
    using validate_error by blast
  then show "\<exists>msg. validate_optimization_inputs (PStr u) (PDict d) st = Inl (ValueError msg)
             \<and> optimize_unit_comprehensive body svc (PStr u) (PDict d) st = (Inl (ValueError msg), svc)"
    by (simp add: optimize_unit_comprehensive_def)
next
  assume "validate_optimization_inputs (PStr u) (PDict d) st = Inr ()"
  then show "optimize_unit_comprehensive body svc (PStr u) (PDict d) st = body svc"
    by (simp add: optimize_unit_comprehensive_def log_and_reraise_id split: prod.splits)
qed

theorem validation_fails_fast_witness:
  "validate_optimization_inputs (PStr ''CC-001'') (PDict example_reading) ''balanced'' = Inr ()
   \<and> optimize_unit_comprehensive (\<lambda>s. (Inr [], s)) example_service
         (PStr ''CC-001'') (PDict example_reading) ''balanced'' = (Inr [], example_service)
   \<and> (\<exists>msg. optimize_unit_comprehensive (\<lambda>s. (Inr [], s)) example_service
                (PStr ''CC-001'') (PDict [(''temperature'', PFloat 75.5)]) ''balanced''
              = (Inl (ValueError msg), example_service))
   \<and> (\<exists>msg. optimize_unit_comprehensive (\<lambda>s. (Inr [], s)) example_service
                (PStr ''CC-001'') (PDict example_reading) ''fastest''
              = (Inl (ValueError msg), example_service))
   \<and> (\<exists>msg. optimize_unit_comprehensive (\<lambda>s. (Inr [], s)) example_service
                (PStr []) (PDict example_reading) ''balanced''
              = (Inl (ValueError msg), example_service))"
  using validation_fails_fast
          [of "''CC-001''" example_reading "''balanced''" "\<lambda>s. (Inr [], s)" example_service]
        validation_fails_fast
          [of "''CC-001''" "[(''temperature'', PFloat 75.5)]" "''balanced''" "\<lambda>s. (Inr [], s)" example_service]
        validation_fails_fast
          [of "''CC-001''" example_reading "''fastest''" "\<lambda>s. (Inr [], s)" example_service]
        validation_fails_fast
          [of "[]" example_reading "''balanced''" "\<lambda>s. (Inr [], s)" example_service]
  by (auto simp: example_reading_def dict_has_def)

section \<open>Cache keys\<close>

lemma sort_key_fst_unique:
  assumes "distinct (map fst d)" "distinct (map fst d')" "set d = set d'"
  shows "sort_key fst d = sort_key fst d'"
proof -
  let ?xs = "sort_key fst d" and ?ys = "sort_key fst d'"
  have dx: "distinct (map fst ?xs)" and dy: "distinct (map fst ?ys)"
    using assms(1,2) by (simp_all add: distinct_map)
  have "set (map fst ?xs) = set (map fst ?ys)"
    using assms(3) by simp
  then have keys: "map fst ?xs = map fst ?ys"
    using dx dy by (intro sorted_distinct_set_unique) (simp_all only: sorted_sort_key)
  have "inj_on fst (set ?xs \<union> set ?ys)"
    using assms by (simp add: distinct_map)
  then show ?thesis
    using keys by (simp add: inj_on_map_eq_map)
qed

lemma json_dumps_sorted_order:
  "distinct (map fst d) \<Longrightarrow> distinct (map fst d') \<Longrightarrow> set d = set d'
     \<Longrightarrow> json_dumps_sorted env d = json_dumps_sorted env d'"
  by (simp add: json_dumps_sorted_def sort_key_fst_unique[of d d'])

text \<open>
  C5. Whatever the two readings are, the key of one request kind is never the key of
  another kind (the keys differ in their first or second character), so efficiency,
  maintenance and energy requests never share a cache entry. For one kind, two
  dictionaries with the same key-value pairs, inserted in any order, get the same key:
  \<open>json.dumps(..., sort_keys=True)\<close> writes the same text for both.
\<close>

theorem cache_keys_scoped_by_kind:
  "efficiency_cache_key env d \<noteq> maintenance_cache_key env d'
   \<and> efficiency_cache_key env d \<noteq> energy_cache_key env d'
   \<and> maintenance_cache_key env d \<noteq> energy_cache_key env d'
   \<and> (distinct (map fst d) \<and> distinct (map fst d') \<and> set d = set d' \<longrightarrow>
        efficiency_cache_key env d = efficiency_cache_key env d'
        \<and> maintenance_cache_key env d = maintenance_cache_key env d'
        \<and> energy_cache_key env d = energy_cache_key env d')"
  by (simp add: efficiency_cache_key_def maintenance_cache_key_def energy_cache_key_def
        json_dumps_sorted_order[of d d' env])

theorem cache_keys_scoped_by_kind_witness:
  "efficiency_cache_key example_env [(''temperature'', PFloat 75.5), (''pressure'', PFloat 45.2)]
     \<noteq> maintenance_cache_key example_env [(''temperature'', PFloat 75.5), (''pressure'', PFloat 45.2)]
   \<and> efficiency_cache_key example_env [(''temperature'', PFloat 75.5), (''pressure'', PFloat 45.2)]
     = efficiency_cache_key example_env [(''pressure'', PFloat 45.2), (''temperature'', PFloat 75.5)]
   \<and> maintenance_cache_key example_env [(''temperature'', PFloat 75.5), (''pressure'', PFloat 45.2)]
     = maintenance_cache_key example_env [(''pressure'', PFloat 45.2), (''temperature'', PFloat 75.5)]"
  using cache_keys_scoped_by_kind
          [of example_env "[(''temperature'', PFloat 75.5), (''pressure'', PFloat 45.2)]"
              "[(''temperature'', PFloat 75.5), (''pressure'', PFloat 45.2)]"]
        cache_keys_scoped_by_kind
          [of example_env "[(''temperature'', PFloat 75.5), (''pressure'', PFloat 45.2)]"
              "[(''pressure'', PFloat 45.2), (''temperature'', PFloat 75.5)]"]
  by (simp add: insert_commute)

section \<open>The cache: hits, misses and the result object\<close>


lemma store_fst: "fst (store_and_annotate svc clk key r) = length (heap svc)"
  by (simp add: store_and_annotate_def Let_def)

lemma store_heap:
  "heap (snd (store_and_annotate svc clk key r))
     = heap svc @ [dict_set r ''processing_time_ms'' (PFloat ((t_end clk - t_start clk) * 1000))]"
  by (simp add: store_and_annotate_def Let_def clean_cache_def)

lemma store_fields:
  "cache_enabled (snd (store_and_annotate svc clk key r)) = cache_enabled svc"
  "cache_ttl (snd (store_and_annotate svc clk key r)) = cache_ttl svc"
  "executor (snd (store_and_annotate svc clk key r)) = executor svc"
  "optimizer_models (snd (store_and_annotate svc clk key r)) = optimizer_models svc"
  by (simp_all add: store_and_annotate_def Let_def clean_cache_def)

lemma store_cache:
  "cache_enabled svc \<Longrightarrow> t_clean clk - t_store clk \<le> cache_ttl svc \<Longrightarrow>
   prediction_cache (snd (store_and_annotate svc clk key r)) key
     = Some \<lparr>data = length (heap svc), timestamp = t_store clk\<rparr>"
  by (simp add: store_and_annotate_def Let_def clean_cache_def)

lemma predict_efficiency_miss:
  assumes "cache_lookup svc (efficiency_cache_key env sd) (t_check clk) = None"
    and "executor svc = ThreadPoolExecutor n"
    and "optimizer_models svc ''efficiency'' = Some f"
  shows "predict_efficiency env svc clk sd =
           (case f sd of
              Inl e \<Rightarrow> (Inl e, svc)
            | Inr r \<Rightarrow> (Inr (length (heap svc)), snd (store_and_annotate svc clk (efficiency_cache_key env sd) r)))"
  using assms
  by (cases "f sd")
     (simp_all add: predict_efficiency_def Let_def log_and_reraise_id call_method_def
        optimizer_predict_efficiency_def case_prod_beta store_fst)

lemma predict_efficiency_hit:
  "cache_lookup svc (efficiency_cache_key env sd) (t_check clk) = Some a
     \<Longrightarrow> predict_efficiency env svc clk sd = (Inr a, svc)"
  by (simp add: predict_efficiency_def Let_def)

lemma cache_lookup_Some_iff:
  "cache_lookup svc key now = Some a \<longleftrightarrow>
     cache_enabled svc \<and>
     (\<exists>e. prediction_cache svc key = Some e \<and> data e = a \<and> now - timestamp e < cache_ttl svc)"
  by (auto simp: cache_lookup_def split: option.splits)

lemma cache_lookup_after_store:
  assumes "cache_enabled svc" "t_clean clk - t_store clk \<le> cache_ttl svc"
    and "now - t_store clk < cache_ttl svc"
  shows "cache_lookup (snd (store_and_annotate svc clk key r)) key now = Some (length (heap svc))"
  using assms by (simp add: cache_lookup_def store_fields store_cache)

text \<open>
  C3 (as amended). With caching on, an efficiency estimator loaded and a first call that
  misses the cache and is not swept at once, a second call for the same reading before
  the entry is \<open>cache_ttl\<close> old returns the very same result object and changes
  nothing: the payload is identical, its \<open>processing_time_ms\<close> included, which is still
  the time measured by the first call. The second call writes no processing time of its
  own.
\<close>

theorem cached_result_is_returned_unchanged:
  assumes "cache_enabled svc" and "executor svc = ThreadPoolExecutor n"
    and "optimizer_models svc ''efficiency'' = Some f" and "f sensor_data = Inr r"
    and "cache_lookup svc (efficiency_cache_key env sensor_data) (t_check clk1) = None"
    and "t_clean clk1 - t_store clk1 \<le> cache_ttl svc"
    and "t_check clk2 - t_store clk1 < cache_ttl svc"
  shows "fst (predict_efficiency env svc clk1 sensor_data) = Inr (length (heap svc))
       \<and> predict_efficiency env (snd (predict_efficiency env svc clk1 sensor_data)) clk2 sensor_data
           = (Inr (length (heap svc)), snd (predict_efficiency env svc clk1 sensor_data))
       \<and> heap (snd (predict_efficiency env svc clk1 sensor_data)) ! length (heap svc)
           = dict_set r ''processing_time_ms'' (PFloat ((t_end clk1 - t_start clk1) * 1000))"
proof -
  let ?key = "efficiency_cache_key env sensor_data"
  let ?svc1 = "snd (store_and_annotate svc clk1 ?key r)"
  have first: "predict_efficiency env svc clk1 sensor_data = (Inr (length (heap svc)), ?svc1)"
    using predict_efficiency_miss[OF assms(5,2,3)] assms(4) by simp
  have "cache_lookup ?svc1 ?key (t_check clk2) = Some (length (heap svc))"
    using assms(1,6,7) by (rule cache_lookup_after_store)
  then have second: "predict_efficiency env ?svc1 clk2 sensor_data = (Inr (length (heap svc)), ?svc1)"
    by (rule predict_efficiency_hit)
  show ?thesis
    using first second by (simp add: store_heap)
qed

lemma example_service_facts:
  "cache_enabled example_service" "executor example_service = ThreadPoolExecutor 4"
  "optimizer_models example_service ''efficiency'' = Some example_estimator"
  "cache_ttl example_service = 300" "heap example_service = []"
  "prediction_cache example_service = Map.empty"
  by (simp_all add: example_service_def load_model_def PredictionService_init_def)

lemma example_first_call_eq:
  "example_first_call =
     (Inr 0, snd (store_and_annotate example_service (example_clock 0 2)
                    (efficiency_cache_key example_env example_reading)
                    [(''predicted_efficiency'', PFloat 82.5)]))"
  unfolding example_first_call_def
  by (subst predict_efficiency_miss[where n=4 and f=example_estimator])
     (simp_all add: example_service_facts cache_lookup_def example_estimator_def)

lemma example_second_call_eq: "example_second_call = (Inr 0, snd example_first_call)"
  unfolding example_second_call_def example_first_call_eq snd_conv
  by (rule predict_efficiency_hit)
     (simp add: cache_lookup_def store_fields store_cache example_service_facts example_clock_def)

theorem cached_result_is_returned_unchanged_witness:
  "fst (predict_efficiency example_env example_service (example_clock 0 2) example_reading) = Inr 0
   \<and> predict_efficiency example_env
        (snd (predict_efficiency example_env example_service (example_clock 0 2) example_reading))
        (example_clock 10 10.001) example_reading
       = (Inr 0, snd (predict_efficiency example_env example_service (example_clock 0 2) example_reading))
   \<and> heap (snd (predict_efficiency example_env example_service (example_clock 0 2) example_reading)) ! 0
       = [(''predicted_efficiency'', PFloat 82.5), (''processing_time_ms'', PFloat 2000)]"
  using cached_result_is_returned_unchanged
          [of example_service 4 example_estimator example_reading "[(''predicted_efficiency'', PFloat 82.5)]"
              example_env "example_clock 0 2" "example_clock 10 10.001"]
  by (simp add: example_service_facts cache_lookup_def example_estimator_def example_clock_def dict_set_def)

text \<open>
  The claim as written fails: a first call that took 2000 ms, then a second call for
  the same reading 10 seconds later that took 1 ms. Both calls return object 0, and the
  result of the second call still says 2000 ms.
\<close>

theorem second_call_keeps_first_processing_time:
  "fst example_first_call = Inr 0
   \<and> fst example_second_call = Inr 0
   \<and> dict_get (heap (snd example_first_call) ! 0) ''processing_time_ms'' PNone = PFloat 2000
   \<and> dict_get (heap (snd example_second_call) ! 0) ''processing_time_ms'' PNone = PFloat 2000
   \<and> (t_end (example_clock 10 10.001) - t_start (example_clock 10 10.001)) * 1000 = 1"
  by (simp add: example_second_call_eq)
     (simp add: example_first_call_eq store_heap example_service_facts dict_get_def dict_set_def
        example_clock_def)

text \<open>
  C4 (as amended). The TTL of a new service is 300 seconds. A lookup returns the cached
  reference exactly when caching is on, the
  key is present and \<open>now - timestamp < cache_ttl\<close>, strictly. On a miss (an entry of
  age \<open>cache_ttl\<close> or more included) \<open>predict_efficiency\<close> calls the estimator
  again: when it returns, the caller gets a new object holding that output and the
  processing time, and the entry of the key is replaced by the new one (caching on, no
  sweep in between); when it raises, the error goes to the caller and the service, the
  stale entry included, is unchanged, so the read alone deletes nothing.
\<close>

theorem lookup_is_strict_and_miss_recomputes:
  "cache_ttl (PredictionService_init enabled) = 300
   \<and> (cache_lookup svc key now = Some a \<longleftrightarrow>
      cache_enabled svc \<and>
      (\<exists>e. prediction_cache svc key = Some e \<and> data e = a \<and> now - timestamp e < cache_ttl svc))
   \<and> (cache_lookup svc (efficiency_cache_key env sensor_data) (t_check clk) = None
        \<and> executor svc = ThreadPoolExecutor n \<and> optimizer_models svc ''efficiency'' = Some f
        \<and> f sensor_data = Inr r \<longrightarrow>
       fst (predict_efficiency env svc clk sensor_data) = Inr (length (heap svc))
       \<and> heap (snd (predict_efficiency env svc clk sensor_data)) ! length (heap svc)
           = dict_set r ''processing_time_ms'' (PFloat ((t_end clk - t_start clk) * 1000))
       \<and> (cache_enabled svc \<and> t_clean clk - t_store clk \<le> cache_ttl svc \<longrightarrow>
            prediction_cache (snd (predict_efficiency env svc clk sensor_data))
                (efficiency_cache_key env sensor_data)
              = Some \<lparr>data = length (heap svc), timestamp = t_store clk\<rparr>))
   \<and> (cache_lookup svc (efficiency_cache_key env sensor_data) (t_check clk) = None
        \<and> executor svc = ThreadPoolExecutor n \<and> optimizer_models svc ''efficiency'' = Some f
        \<and> f sensor_data = Inl x \<longrightarrow>
       predict_efficiency env svc clk sensor_data = (Inl x, svc))"
proof (intro conjI impI)
  show "cache_ttl (PredictionService_init enabled) = 300"
    by (simp add: PredictionService_init_def)
next
  show "cache_lookup svc key now = Some a \<longleftrightarrow>
      cache_enabled svc \<and>
      (\<exists>e. prediction_cache svc key = Some e \<and> data e = a \<and> now - timestamp e < cache_ttl svc)"
    by (rule cache_lookup_Some_iff)
next
  assume a: "cache_lookup svc (efficiency_cache_key env sensor_data) (t_check clk) = None
        \<and> executor svc = ThreadPoolExecutor n \<and> optimizer_models svc ''efficiency'' = Some f
        \<and> f sensor_data = Inr r"
  then have p: "predict_efficiency env svc clk sensor_data
      = (Inr (length (heap svc)), snd (store_and_annotate svc clk (efficiency_cache_key env sensor_data) r))"
    using predict_efficiency_miss[of svc env sensor_data clk n f] by simp
  show "fst (predict_efficiency env svc clk sensor_data) = Inr (length (heap svc))"
    using p by simp
  show "heap (snd (predict_efficiency env svc clk sensor_data)) ! length (heap svc)
           = dict_set r ''processing_time_ms'' (PFloat ((t_end clk - t_start clk) * 1000))"
    using p by (simp add: store_heap)
  assume "cache_enabled svc \<and> t_clean clk - t_store clk \<le> cache_ttl svc"
  then show "prediction_cache (snd (predict_efficiency env svc clk sensor_data))
                (efficiency_cache_key env sensor_data)
              = Some \<lparr>data = length (heap svc), timestamp = t_store clk\<rparr>"
    using p by (simp add: store_cache)
next
  assume a: "cache_lookup svc (efficiency_cache_key env sensor_data) (t_check clk) = None
        \<and> executor svc = ThreadPoolExecutor n \<and> optimizer_models svc ''efficiency'' = Some f
        \<and> f sensor_data = Inl x"
  then show "predict_efficiency env svc clk sensor_data = (Inl x, svc)"
    using predict_efficiency_miss[of svc env sensor_data clk n f] by simp
qed

lemma example_cached_service_facts:
  "cache_enabled example_cached_service" "executor example_cached_service = ThreadPoolExecutor 4"
  "optimizer_models example_cached_service ''efficiency'' = Some example_estimator"
  "cache_ttl example_cached_service = 300"
  "heap example_cached_service = [[(''predicted_efficiency'', PFloat 80)]]"
  "prediction_cache example_cached_service (efficiency_cache_key example_env example_reading)
     = Some \<lparr>data = 0, timestamp = 0\<rparr>"
  by (simp_all add: example_cached_service_def example_service_facts)

theorem lookup_is_strict_and_miss_recomputes_witness:
  "cache_lookup example_cached_service (efficiency_cache_key example_env example_reading) 299 = Some 0
   \<and> fst (predict_efficiency example_env example_cached_service (example_clock 301 302) example_reading) = Inr 1
   \<and> heap (snd (predict_efficiency example_env example_cached_service (example_clock 301 302) example_reading)) ! 1
       = [(''predicted_efficiency'', PFloat 82.5), (''processing_time_ms'', PFloat 1000)]
   \<and> prediction_cache
        (snd (predict_efficiency example_env example_cached_service (example_clock 301 302) example_reading))
        (efficiency_cache_key example_env example_reading)
       = Some \<lparr>data = 1, timestamp = 302\<rparr>
   \<and> predict_efficiency example_env (load_model ''efficiency'' failing_estimator example_cached_service)
        (example_clock 301 302) example_reading
       = (Inl (RuntimeError ''inference failed''),
          load_model ''efficiency'' failing_estimator example_cached_service)"
  using lookup_is_strict_and_miss_recomputes
          [of True example_cached_service "efficiency_cache_key example_env example_reading" 299 0
              example_env example_reading "example_clock 301 302" 4 example_estimator
              "[(''predicted_efficiency'', PFloat 82.5)]" "RuntimeError ''inference failed''"]
        lookup_is_strict_and_miss_recomputes
          [of True "load_model ''efficiency'' failing_estimator example_cached_service"
              "efficiency_cache_key example_env example_reading" 299 0
              example_env example_reading "example_clock 301 302" 4 failing_estimator
              "[(''predicted_efficiency'', PFloat 82.5)]" "RuntimeError ''inference failed''"]
  by (simp add: example_cached_service_facts cache_lookup_def example_estimator_def failing_estimator_def
        example_clock_def dict_set_def load_model_def)

text \<open>
  The claim as written fails at an age of exactly \<open>cache_ttl\<close>: the entry was
  written at time 0, the lookup at time 300 satisfies \<open>now - timestamp \<le> cache_ttl\<close>
  and is a miss, and \<open>predict_efficiency\<close> computes a new result (object 1).
\<close>

theorem lookup_at_exactly_ttl_is_a_miss:
  "prediction_cache example_cached_service (efficiency_cache_key example_env example_reading)
     = Some \<lparr>data = 0, timestamp = 0\<rparr>
   \<and> (300::real) - 0 \<le> cache_ttl example_cached_service
   \<and> cache_lookup example_cached_service (efficiency_cache_key example_env example_reading) 300 = None
   \<and> fst (predict_efficiency example_env example_cached_service (example_clock 300 300) example_reading)
       = Inr 1"
proof -
  have l: "cache_lookup example_cached_service (efficiency_cache_key example_env example_reading)
             (t_check (example_clock 300 300)) = None"
    by (simp add: cache_lookup_def example_cached_service_facts example_clock_def)
  have "fst (predict_efficiency example_env example_cached_service (example_clock 300 300) example_reading)
       = Inr 1"
    by (subst predict_efficiency_miss[OF l, where n=4 and f=example_estimator])
       (simp_all add: example_cached_service_facts example_estimator_def)
  with l show ?thesis
    by (simp add: example_cached_service_facts example_clock_def)
qed

section \<open>Priority scores and ranks\<close>

lemma score_ignores_priority [simp]:
  "calculate_priority_score fa w (r\<lparr>priority_rank := x\<rparr>) = calculate_priority_score fa w r"
  "calculate_priority_score fa w (r\<lparr>priority_score := y\<rparr>) = calculate_priority_score fa w r"
  by (simp_all add: calculate_priority_score_def impact_get_def)

lemma impact_get_ignores_priority [simp]:
  "impact_get (r\<lparr>priority_rank := x\<rparr>) k = impact_get r k"
  "impact_get (r\<lparr>priority_score := y\<rparr>) k = impact_get r k"
  by (simp_all add: impact_get_def)

lemma add_priority_simps:
  "calculate_priority_score fa w (add_priority fa' w' ir) = calculate_priority_score fa w (snd ir)"
  "impact_get (add_priority fa' w' ir) k = impact_get (snd ir) k"
  "unranked (add_priority fa' w' ir) = unranked (snd ir)"
  "priority_rank (add_priority fa' w' ir) = Some (fst ir + 1)"
  "priority_score (add_priority fa' w' ir) = Some (calculate_priority_score fa' w' (snd ir))"
  by (cases ir; simp add: add_priority_def Let_def unranked_def)+

lemma unranked_simps [simp]:
  "calculate_priority_score fa w (unranked r) = calculate_priority_score fa w r"
  "impact_get (unranked r) k = impact_get r k"
  by (simp_all add: unranked_def)

lemma map_over_enumerate: "map (\<lambda>ir. f (snd ir)) (enumerate n xs) = map f xs"
  by (induction xs arbitrary: n) simp_all

lemma map_fst_over_enumerate: "map (\<lambda>ir. g (fst ir)) (enumerate n xs) = map g [n..<n + length xs]"
  by (induction xs arbitrary: n) (simp_all add: upt_rec)

lemma penalty_scaling: "(s::real) - s * d - (s - s * d) * p = s * (1 - d) * (1 - p)"
  by (simp add: algebra_simps)

lemma exact_arith_simps [simp]:
  "fadd exact_arith a b = a + b"
  "fsub exact_arith a b = a - b"
  "fmul exact_arith a b = a * b"
  "fdiv exact_arith a b = a / b"
  by (simp_all add: exact_arith_def)

lemma score_formula:
  "calculate_priority_score exact_arith w r =
     (impact_get r ''efficiency_gain'' * w_efficiency w
      + impact_get r ''energy_savings'' * w_energy_savings w / 10
      + impact_get r ''maintenance_risk_reduction'' * w_maintenance_risk w * 100)
     * (1 - penalty_get difficulty_penalty (difficulty r))
     * (1 - penalty_get risk_penalty (risk_level r))"
  unfolding calculate_priority_score_def Let_def exact_arith_simps
  by (simp only: add_0 penalty_scaling)

lemma penalty_tables:
  "penalty_get difficulty_penalty ''low'' = 0"
  "penalty_get difficulty_penalty ''medium'' = 0.1"
  "penalty_get difficulty_penalty ''high'' = 0.2"
  "penalty_get risk_penalty ''low'' = 0"
  "penalty_get risk_penalty ''medium'' = 0.15"
  "penalty_get risk_penalty ''high'' = 0.3"
  by (simp_all add: penalty_get_def difficulty_penalty_def risk_penalty_def)

lemma sorted_reverse_descending:
  "sorted_wrt (\<lambda>a b. key a \<ge> key b) (sorted_reverse key xs)"
proof -
  have "sorted (map (\<lambda>x. - key x) (sort_key (\<lambda>x. - key x) xs))"
    by (rule sorted_sort_key)
  then show ?thesis
    by (simp add: sorted_reverse_def sorted_map)
qed

lemma sorted_reverse_stable:
  "filter (\<lambda>y. key y = k) (sorted_reverse key xs) = filter (\<lambda>y. key y = k) xs"
  using sort_key_stable[of "\<lambda>x. - key x" "- k" xs] by (simp add: sorted_reverse_def)

lemma prioritize_unranked:
  "map unranked (prioritize_recommendations fa recs w)
     = map unranked (sorted_reverse (calculate_priority_score fa w) recs)"
  by (simp add: prioritize_recommendations_def Let_def add_priority_simps o_def map_over_enumerate)

lemma prioritize_scores:
  "map (calculate_priority_score fa w) (prioritize_recommendations fa recs w)
     = map (calculate_priority_score fa w) (sorted_reverse (calculate_priority_score fa w) recs)"
  by (simp add: prioritize_recommendations_def Let_def add_priority_simps o_def map_over_enumerate)

lemma length_prioritize: "length (prioritize_recommendations fa recs w) = length recs"
  by (simp add: prioritize_recommendations_def Let_def sorted_reverse_def)

text \<open>
  C7 (as amended). The priority score is the float value of the sum of
  \<open>efficiency_gain * weight[efficiency]\<close>,
  \<open>energy_savings * weight[energy_savings] / 10\<close> and
  \<open>maintenance_risk_reduction * weight[maintenance_risk] * 100\<close>, reduced by
  \<open>score * difficulty_penalty\<close> and then by \<open>score * risk_penalty\<close>, with the penalties
  0, 0.1, 0.2 for difficulty and 0, 0.15, 0.3 for risk (low, medium, high); without
  rounding that is the sum scaled by \<open>1 - difficulty_penalty\<close> and
  \<open>1 - risk_penalty\<close>. Whatever the float operations return: every returned
  recommendation carries the score the code computes for it; the list is in
  descending order of that computed score; recommendations whose computed scores are
  equal keep the order of the candidates; and the ranks are 1, 2, ..., N in list
  order.
\<close>

theorem prioritize_recommendations_ordered:
  "calculate_priority_score exact_arith w r =
     (impact_get r ''efficiency_gain'' * w_efficiency w
      + impact_get r ''energy_savings'' * w_energy_savings w / 10
      + impact_get r ''maintenance_risk_reduction'' * w_maintenance_risk w * 100)
     * (1 - penalty_get difficulty_penalty (difficulty r))
     * (1 - penalty_get risk_penalty (risk_level r))
   \<and> map (penalty_get difficulty_penalty) [''low'', ''medium'', ''high''] = [0, 0.1, 0.2]
   \<and> map (penalty_get risk_penalty) [''low'', ''medium'', ''high''] = [0, 0.15, 0.3]
   \<and> map priority_score (prioritize_recommendations fa recs w)
       = map (\<lambda>x. Some (calculate_priority_score fa w x)) (prioritize_recommendations fa recs w)
   \<and> sorted_wrt (\<lambda>a b. calculate_priority_score fa w a \<ge> calculate_priority_score fa w b)
       (prioritize_recommendations fa recs w)
   \<and> filter (\<lambda>x. calculate_priority_score fa w x = k)
         (map unranked (prioritize_recommendations fa recs w))
       = filter (\<lambda>x. calculate_priority_score fa w x = k) (map unranked recs)
   \<and> map priority_rank (prioritize_recommendations fa recs w) = map Some [1..<length recs + 1]"
proof (intro conjI)
  show "calculate_priority_score exact_arith w r =
     (impact_get r ''efficiency_gain'' * w_efficiency w
      + impact_get r ''energy_savings'' * w_energy_savings w / 10
      + impact_get r ''maintenance_risk_reduction'' * w_maintenance_risk w * 100)
     * (1 - penalty_get difficulty_penalty (difficulty r))
     * (1 - penalty_get risk_penalty (risk_level r))"
    by (rule score_formula)
  show "map (penalty_get difficulty_penalty) [''low'', ''medium'', ''high''] = [0, 0.1, 0.2]"
    by (simp add: penalty_tables)
  show "map (penalty_get risk_penalty) [''low'', ''medium'', ''high''] = [0, 0.15, 0.3]"
    by (simp add: penalty_tables)
  show "map priority_score (prioritize_recommendations fa recs w)
       = map (\<lambda>x. Some (calculate_priority_score fa w x)) (prioritize_recommendations fa recs w)"
    by (simp add: prioritize_recommendations_def Let_def add_priority_simps o_def)
  have "sorted_wrt (\<lambda>a b. a \<ge> b)
          (map (calculate_priority_score fa w) (sorted_reverse (calculate_priority_score fa w) recs))"
    using sorted_reverse_descending[of "calculate_priority_score fa w" recs]
    by (simp add: sorted_wrt_map)
  then show "sorted_wrt (\<lambda>a b. calculate_priority_score fa w a \<ge> calculate_priority_score fa w b)
       (prioritize_recommendations fa recs w)"
    by (simp add: prioritize_scores[symmetric] sorted_wrt_map)
  have "filter (\<lambda>x. calculate_priority_score fa w x = k)
          (map unranked (prioritize_recommendations fa recs w))
        = map unranked (filter (\<lambda>x. calculate_priority_score fa w x = k)
             (sorted_reverse (calculate_priority_score fa w) recs))"
    by (simp add: prioritize_unranked filter_map o_def)
  also have "\<dots> = map unranked (filter (\<lambda>x. calculate_priority_score fa w x = k) recs)"
    by (simp add: sorted_reverse_stable)
  also have "\<dots> = filter (\<lambda>x. calculate_priority_score fa w x = k) (map unranked recs)"
    by (simp add: filter_map o_def)
  finally show "filter (\<lambda>x. calculate_priority_score fa w x = k)
         (map unranked (prioritize_recommendations fa recs w))
       = filter (\<lambda>x. calculate_priority_score fa w x = k) (map unranked recs)" .
  have "map priority_rank (prioritize_recommendations fa recs w)
        = map (\<lambda>i. Some (i + 1)) [0..<0 + length (sorted_reverse (calculate_priority_score fa w) recs)]"
    unfolding prioritize_recommendations_def Let_def map_map o_def add_priority_simps
    by (rule map_fst_over_enumerate)
  also have "\<dots> = map Some (map Suc [0..<length recs])"
    by (simp add: sorted_reverse_def)
  also have "\<dots> = map Some [1..<length recs + 1]"
    by (simp only: map_Suc_upt) simp
  finally show "map priority_rank (prioritize_recommendations fa recs w) = map Some [1..<length recs + 1]" .
qed

subsection \<open>The score of one candidate under rounding\<close>

lemma accurate_exact: "accurate exact_arith"
  by (simp add: accurate_def)

lemma accurate_fadd:
  "accurate fa \<Longrightarrow> \<bar>a\<bar> \<le> 1000 \<Longrightarrow> \<bar>b\<bar> \<le> 1000 \<Longrightarrow> \<bar>fadd fa a b - (a + b)\<bar> \<le> 1 / 1000000000"
  by (simp add: accurate_def)

lemma accurate_fsub:
  "accurate fa \<Longrightarrow> \<bar>a\<bar> \<le> 1000 \<Longrightarrow> \<bar>b\<bar> \<le> 1000 \<Longrightarrow> \<bar>fsub fa a b - (a - b)\<bar> \<le> 1 / 1000000000"
  by (simp add: accurate_def)

lemma accurate_fmul:
  "accurate fa \<Longrightarrow> \<bar>a\<bar> \<le> 1000 \<Longrightarrow> \<bar>b\<bar> \<le> 1000 \<Longrightarrow> \<bar>fmul fa a b - a * b\<bar> \<le> 1 / 1000000000"
  by (simp add: accurate_def)

lemma accurate_fdiv:
  "accurate fa \<Longrightarrow> \<bar>a\<bar> \<le> 1000 \<Longrightarrow> \<bar>b\<bar> \<le> 1000 \<Longrightarrow> 1 \<le> \<bar>b\<bar> \<Longrightarrow> \<bar>fdiv fa a b - a / b\<bar> \<le> 1 / 1000000000"
  by (simp add: accurate_def)

lemma temp_optimization_score_bounds:
  assumes acc: "accurate fa"
  shows "\<bar>calculate_priority_score fa balanced_weights temp_optimization - 1782 / 1000\<bar> \<le> 1 / 100"
proof -
  define e1 where "e1 = fmul fa (5 / 2) (33 / 100)"
  define t where "t = fmul fa 35 (33 / 100)"
  define e2 where "e2 = fdiv fa t 10"
  define q where "q = fmul fa 0 (17 / 50)"
  define e3 where "e3 = fmul fa q 100"
  define a1 where "a1 = fadd fa e1 e2"
  define a2 where "a2 = fadd fa a1 e3"
  define s1 where "s1 = fadd fa 0 a2"
  define m1 where "m1 = fmul fa s1 (1 / 10)"
  define s2 where "s2 = fsub fa s1 m1"
  define m2 where "m2 = fmul fa s2 0"
  define s3 where "s3 = fsub fa s2 m2"
  have score: "calculate_priority_score fa balanced_weights temp_optimization = s3"
    by (simp add: calculate_priority_score_def Let_def balanced_weights_def temp_optimization_def
          impact_get_def penalty_get_def difficulty_penalty_def risk_penalty_def
          e1_def t_def e2_def q_def e3_def a1_def a2_def s1_def m1_def s2_def m2_def s3_def)
  have "\<bar>e1 - 5 / 2 * (33 / 100)\<bar> \<le> 1 / 1000000000"
    unfolding e1_def by (rule accurate_fmul[OF acc]) simp_all
  then have e1: "8249 / 10000 \<le> e1 \<and> e1 \<le> 8251 / 10000"
    by linarith
  have "\<bar>t - 35 * (33 / 100)\<bar> \<le> 1 / 1000000000"
    unfolding t_def by (rule accurate_fmul[OF acc]) simp_all
  then have t: "115499 / 10000 \<le> t \<and> t \<le> 115501 / 10000"
    by linarith
  have "\<bar>e2 - t / 10\<bar> \<le> 1 / 1000000000"
    unfolding e2_def using t by (intro accurate_fdiv[OF acc]) linarith+
  with t have e2: "11549 / 10000 \<le> e2 \<and> e2 \<le> 11551 / 10000"
    by linarith
  have "\<bar>q - 0 * (17 / 50)\<bar> \<le> 1 / 1000000000"
    unfolding q_def by (rule accurate_fmul[OF acc]) simp_all
  then have q: "- (1 / 10000000) \<le> q \<and> q \<le> 1 / 10000000"
    by linarith
  have "\<bar>e3 - q * 100\<bar> \<le> 1 / 1000000000"
    unfolding e3_def using q by (intro accurate_fmul[OF acc]) linarith+
  with q have e3: "- (1 / 10000) \<le> e3 \<and> e3 \<le> 1 / 10000"
    by linarith
  have "\<bar>a1 - (e1 + e2)\<bar> \<le> 1 / 1000000000"
    unfolding a1_def using e1 e2 by (intro accurate_fadd[OF acc]) linarith+
  with e1 e2 have a1: "19797 / 10000 \<le> a1 \<and> a1 \<le> 19803 / 10000"
    by linarith
  have "\<bar>a2 - (a1 + e3)\<bar> \<le> 1 / 1000000000"
    unfolding a2_def using a1 e3 by (intro accurate_fadd[OF acc]) linarith+
  with a1 e3 have a2: "19795 / 10000 \<le> a2 \<and> a2 \<le> 19805 / 10000"
    by linarith
  have "\<bar>s1 - (0 + a2)\<bar> \<le> 1 / 1000000000"
    unfolding s1_def using a2 by (intro accurate_fadd[OF acc]) linarith+
  with a2 have s1: "19794 / 10000 \<le> s1 \<and> s1 \<le> 19806 / 10000"
    by linarith
  have "\<bar>m1 - s1 * (1 / 10)\<bar> \<le> 1 / 1000000000"
    unfolding m1_def using s1 by (intro accurate_fmul[OF acc]) linarith+
  with s1 have m1: "1979 / 10000 \<le> m1 \<and> m1 \<le> 1981 / 10000"
    by linarith
  have "\<bar>s2 - (s1 - m1)\<bar> \<le> 1 / 1000000000"
    unfolding s2_def using s1 m1 by (intro accurate_fsub[OF acc]) linarith+
  with s1 m1 have s2: "17812 / 10000 \<le> s2 \<and> s2 \<le> 17828 / 10000"
    by linarith
  have "\<bar>m2 - s2 * 0\<bar> \<le> 1 / 1000000000"
    unfolding m2_def using s2 by (intro accurate_fmul[OF acc]) linarith+
  then have m2: "- (1 / 10000) \<le> m2 \<and> m2 \<le> 1 / 10000"
    by linarith
  have "\<bar>s3 - (s2 - m2)\<bar> \<le> 1 / 1000000000"
    unfolding s3_def using s2 m2 by (intro accurate_fsub[OF acc]) linarith+
  with s2 m2 have s3: "\<bar>s3 - 1782 / 1000\<bar> \<le> 1 / 100"
    by linarith
  from s3 show ?thesis
    by (simp only: score)
qed

text \<open>
  The candidate \<open>temp_optimization\<close> under the weights of the balanced strategy: the
  plain weighted sum scaled by the penalties is 11.1375; the code's score is 1.782
  without rounding, and no accurate float arithmetic brings it within 9 of the plain
  weighted sum.
\<close>

theorem priority_score_is_not_the_plain_weighted_sum:
  "map_of load_optimization_templates ''balanced''
     = Some \<lparr>priority_weights = balanced_weights, template_constraints = [(''balanced_tradeoff'', 1)]\<rparr>
   \<and> claimed_priority_score balanced_weights temp_optimization = 11.1375
   \<and> accurate exact_arith
   \<and> calculate_priority_score exact_arith balanced_weights temp_optimization = 1.782
   \<and> \<not> (\<exists>fa. accurate fa
            \<and> \<bar>calculate_priority_score fa balanced_weights temp_optimization
                 - claimed_priority_score balanced_weights temp_optimization\<bar> \<le> 9)"
proof (intro conjI)
  show "map_of load_optimization_templates ''balanced''
     = Some \<lparr>priority_weights = balanced_weights, template_constraints = [(''balanced_tradeoff'', 1)]\<rparr>"
    by (simp add: load_optimization_templates_def balanced_weights_def)
  show claimed: "claimed_priority_score balanced_weights temp_optimization = 11.1375"
    by (simp add: claimed_priority_score_def balanced_weights_def temp_optimization_def
          impact_get_def penalty_get_def difficulty_penalty_def risk_penalty_def)
  show "accurate exact_arith"
    by (rule accurate_exact)
  show "calculate_priority_score exact_arith balanced_weights temp_optimization = 1.782"
    by (simp add: calculate_priority_score_def balanced_weights_def temp_optimization_def
          impact_get_def penalty_get_def difficulty_penalty_def risk_penalty_def Let_def)
  show "\<not> (\<exists>fa. accurate fa
            \<and> \<bar>calculate_priority_score fa balanced_weights temp_optimization
                 - claimed_priority_score balanced_weights temp_optimization\<bar> \<le> 9)"
  proof
    assume "\<exists>fa. accurate fa
            \<and> \<bar>calculate_priority_score fa balanced_weights temp_optimization
                 - claimed_priority_score balanced_weights temp_optimization\<bar> \<le> 9"
    then obtain fa where acc: "accurate fa"
      and near: "\<bar>calculate_priority_score fa balanced_weights temp_optimization
                 - claimed_priority_score balanced_weights temp_optimization\<bar> \<le> 9"
      by blast
    have plain: "claimed_priority_score balanced_weights temp_optimization = 111375 / 10000"
      using claimed by simp
    from temp_optimization_score_bounds[OF acc] near show False
      unfolding plain by linarith
  qed
qed

section \<open>Constraint filtering\<close>








end
